theory Spec2Isabelle
  imports Complex_Main
begin

section \<open>Values, cells and errors\<close>

text \<open>
  The numeric type (\<open>Decimal\<close>, \<open>DecimalSource\<close> of \<open>util/bignum\<close>) is outside the
  sources; it is the type parameter \<open>'d\<close>. A JavaScript value that may be
  \<open>undefined\<close> (an optional parameter, an out-of-range array read) is a \<open>'d option\<close>,
  \<open>None\<close> being \<open>undefined\<close>.

  A \<open>ProcessedComputable<DecimalSource>\<close> is a plain value or a reference cell
  (\<open>ref\<close>); cells live in a store that also counts the cells allocated so far.
\<close>

type_synonym 'd val = "'d option"

datatype 'd computable = Plain 'd | Ref nat

record 'd store =
  cells :: "nat \<Rightarrow> 'd"
  fresh :: nat

definition unref :: "'d store \<Rightarrow> 'd computable \<Rightarrow> 'd" where
  "unref st c = (case c of Plain v \<Rightarrow> v | Ref r \<Rightarrow> cells st r)"

text \<open>\<open>unref\<close> of a field that may be \<open>undefined\<close>.\<close>

definition unref_opt :: "'d store \<Rightarrow> 'd computable option \<Rightarrow> 'd val" where
  "unref_opt st c = (case c of None \<Rightarrow> None | Some x \<Rightarrow> Some (unref st x))"

text \<open>\<open>ref(v)\<close>: a new cell holding \<open>v\<close>.\<close>

definition new_ref :: "'d \<Rightarrow> 'd store \<Rightarrow> nat \<times> 'd store" where
  "new_ref v st = (fresh st, st\<lparr>cells := (cells st)(fresh st := v), fresh := Suc (fresh st)\<rparr>)"

text \<open>\<open>lhsRef.value = v\<close>.\<close>

definition write_ref :: "nat \<Rightarrow> 'd \<Rightarrow> 'd store \<Rightarrow> 'd store" where
  "write_ref r v st = st\<lparr>cells := (cells st)(r := v)\<rparr>"

text \<open>The JavaScript operator \<open>a ?? b\<close> on values.\<close>

definition nullish :: "'a option \<Rightarrow> 'a option \<Rightarrow> 'a option" where
  "nullish a b = (case a of Some x \<Rightarrow> Some x | None \<Rightarrow> b)"

text \<open>
  The code throws strings; a callback that is not part of the sources may throw anything
  (\<open>External\<close>), and calling \<open>undefined\<close> is a \<open>TypeError\<close>.
\<close>

datatype error = Thrown string | External string | TypeError

definition err_integrate_nonexistent_variable :: error where
  "err_integrate_nonexistent_variable = Thrown ''Cannot integrate non-existent variable''"

definition err_evaluate_required :: error where
  "err_evaluate_required = Thrown ''Evaluate function is required if inputs is not length 1''"

definition err_variable_not_invertible :: error where
  "err_variable_not_invertible =
     Thrown ''A formula cannot be marked as having a variable if it is not invertible''"

definition err_cannot_invert :: error where
  "err_cannot_invert = Thrown ''Cannot invert non-invertible formula''"

definition err_nonexistent_operation :: error where
  "err_nonexistent_operation = Thrown ''Cannot integrate formula with non-existent operation''"

definition err_integrate_without_variable :: error where
  "err_integrate_without_variable = Thrown ''Cannot integrate formula without variable''"

definition err_two_complex :: error where
  "err_two_complex = Thrown ''Cannot have two complex operations in an integrable formula''"


definition err_no_input_variable :: error where
  "err_no_input_variable = Thrown ''Could not invert due to no input being a variable''"



section \<open>The formula node\<close>

text \<open>
  Callbacks are compared by identity (\<open>===\<close>) in \<open>equals\<close>, so a callback is data:
  \<^item> a function of \<open>util/bignum\<close> or \<open>./operations\<close> is its qualified name
    (\<open>Decimal.add\<close>, \<open>ops.invertAdd\<close>); what it computes is a parameter, see \<open>env\<close>;
  \<^item> \<open>integrateVariable\<close> and \<open>integrateVariableInner\<close> are the two functions of that
    name in the sources;
  \<^item> the closures \<open>evalStep\<close> and \<open>invertStep\<close> that \<open>Formula.step\<close> creates carry what
    they capture: the cell \<open>lhsRef\<close>, the modified formula and the processed start.
    \<open>lhsRef\<close> is allocated by the call that creates the closures, so two closures are the
    same object exactly when they carry the same data.
\<close>

datatype intfn = IntegrateVariable | IntegrateVariableInner | IntExt string

datatype 'd formula =
  Formula
    (inputs: "'d source list")
    (internalEvaluate: "'d evalfn option")
    (internalInvert: "'d invfn option")
    (internalIntegrate: "intfn option")
    (internalIntegrateInner: "intfn option")
    (applySubstitution: "string option")
    (internalInvertIntegral: "string option")
    (internalHasVariable: bool)
    (innermostVariable: "'d computable option")
and 'd source = SFormula "'d formula" | SValue "'d computable"
and 'd evalfn = EvalExt string | EvalStep nat "'d formula" "'d computable"
and 'd invfn = InvExt string | InvStep nat "'d formula" "'d computable"

text \<open>\<open>FormulaOptions\<close>: the three shapes the constructor tells apart.\<close>

record 'd general_options =
  o_inputs :: "'d source list"
  o_evaluate :: "'d evalfn"
  o_invert :: "'d invfn option"
  o_integrate :: "intfn option"
  o_integrateInner :: "intfn option"
  o_applySubstitution :: "string option"
  o_invertIntegral :: "string option"
  o_hasVariable :: "bool option"

datatype 'd options =
  VariableOptions "'d computable"
| ConstantOptions "'d source list"
| GeneralOptions "'d general_options"

text \<open>
  \<open>InternalFormulaProperties\<close>: what the three setup methods return, in the order
  \<open>setupFormula\<close> lists the fields; a field a method leaves out is \<open>undefined\<close>.
\<close>

record 'd properties =
  p_inputs :: "'d source list"
  p_internalEvaluate :: "'d evalfn option"
  p_internalIntegrate :: "intfn option"
  p_internalIntegrateInner :: "intfn option"
  p_applySubstitution :: "string option"
  p_innermostVariable :: "'d computable option"
  p_internalHasVariable :: bool
  p_internalInvert :: "'d invfn option"
  p_internalInvertIntegral :: "string option"

subsection \<open>Capability predicates\<close>

text \<open>\<open>x != null\<close> and \<open>x == null\<close> on a field that may be \<open>undefined\<close>.\<close>

definition non_null :: "'a option \<Rightarrow> bool" where
  "non_null x = (case x of None \<Rightarrow> False | Some _ \<Rightarrow> True)"

definition is_null :: "'a option \<Rightarrow> bool" where
  "is_null x = (case x of None \<Rightarrow> True | Some _ \<Rightarrow> False)"

definition isInvertible :: "'d formula \<Rightarrow> bool" where
  "isInvertible f =
     (internalHasVariable f \<and> (non_null (internalInvert f) \<or> is_null (internalEvaluate f)))"

definition isIntegrable :: "'d formula \<Rightarrow> bool" where
  "isIntegrable f = (internalHasVariable f \<and> non_null (internalIntegrate f))"

definition isIntegralInvertible :: "'d formula \<Rightarrow> bool" where
  "isIntegralInvertible f =
     (internalHasVariable f \<and>
      (non_null (internalInvertIntegral f) \<or> is_null (internalEvaluate f)))"

definition hasVariable :: "'d formula \<Rightarrow> bool" where
  "hasVariable f = internalHasVariable f"

text \<open>The exported function \<open>hasVariable(value: FormulaSource)\<close>.\<close>

definition hasVariable_source :: "'d source \<Rightarrow> bool" where
  "hasVariable_source s = (case s of SFormula f \<Rightarrow> hasVariable f | SValue _ \<Rightarrow> False)"

subsection \<open>Construction\<close>

definition setupVariable :: "'d computable \<Rightarrow> 'd properties" where
  "setupVariable variable =
     \<lparr>p_inputs = [SValue variable],
      p_internalEvaluate = None,
      p_internalIntegrate = Some IntegrateVariable,
      p_internalIntegrateInner = Some IntegrateVariableInner,
      p_applySubstitution = Some ''ops.passthrough'',
      p_innermostVariable = Some variable,
      p_internalHasVariable = True,
      p_internalInvert = None,
      p_internalInvertIntegral = None\<rparr>"

definition setupConstant :: "'d source list \<Rightarrow> error + 'd properties" where
  "setupConstant ins =
     (if length ins \<noteq> 1 then Inl err_evaluate_required
      else Inr \<lparr>p_inputs = ins,
                p_internalEvaluate = None,
                p_internalIntegrate = None,
                p_internalIntegrateInner = None,
                p_applySubstitution = None,
                p_innermostVariable = None,
                p_internalHasVariable = False,
                p_internalInvert = None,
                p_internalInvertIntegral = None\<rparr>)"

text \<open>\<open>inputs.find(input => input instanceof Formula && input.hasVariable())\<close>.\<close>

definition find_variable :: "'d source list \<Rightarrow> 'd formula option" where
  "find_variable ins =
     (case find hasVariable_source ins of Some (SFormula f) \<Rightarrow> Some f | _ \<Rightarrow> None)"

definition setupFormula :: "'d general_options \<Rightarrow> error + 'd properties" where
  "setupFormula opts =
     (if is_null (o_invert opts) \<and> is_null (o_invertIntegral opts) \<and>
         o_hasVariable opts = Some True
      then Inl err_variable_not_invertible
      else
        let numVariables = length (filter hasVariable_source (o_inputs opts));
            variable = find_variable (o_inputs opts);
            internalHasVariable' =
              (numVariables = 1 \<or> (numVariables = 0 \<and> o_hasVariable opts = Some True));
            innermostVariable' =
              (if internalHasVariable'
               then (case variable of None \<Rightarrow> None | Some v \<Rightarrow> innermostVariable v)
               else None);
            internalInvert' =
              (if internalHasVariable' \<and> (case variable of None \<Rightarrow> False | Some v \<Rightarrow> isInvertible v)
               then o_invert opts else None);
            internalInvertIntegral' =
              (if internalHasVariable' \<and>
                  (case variable of None \<Rightarrow> False | Some v \<Rightarrow> isIntegralInvertible v)
               then o_invertIntegral opts else None)
        in Inr \<lparr>p_inputs = o_inputs opts,
                p_internalEvaluate = Some (o_evaluate opts),
                p_internalIntegrate = o_integrate opts,
                p_internalIntegrateInner = o_integrateInner opts,
                p_applySubstitution = o_applySubstitution opts,
                p_innermostVariable = innermostVariable',
                p_internalHasVariable = internalHasVariable',
                p_internalInvert = internalInvert',
                p_internalInvertIntegral = internalInvertIntegral'\<rparr>)"

text \<open>
  The constructor copies six of the nine properties to the instance: \<open>inputs\<close>,
  \<open>internalHasVariable\<close>, \<open>innermostVariable\<close>, \<open>internalIntegrate\<close>,
  \<open>internalIntegrateInner\<close> and \<open>applySubstitution\<close>. The fields \<open>internalEvaluate\<close>,
  \<open>internalInvert\<close> and \<open>internalInvertIntegral\<close> are declared and never assigned, so
  they stay \<open>undefined\<close>.
\<close>

definition new_Formula :: "'d options \<Rightarrow> error + 'd formula" where
  "new_Formula options =
     (case (case options of
              VariableOptions variable \<Rightarrow> Inr (setupVariable variable)
            | ConstantOptions ins \<Rightarrow> setupConstant ins
            | GeneralOptions opts \<Rightarrow> setupFormula opts) of
        Inl e \<Rightarrow> Inl e
      | Inr readonlyProperties \<Rightarrow>
          Inr (Formula
                 (p_inputs readonlyProperties)
                 None
                 None
                 (p_internalIntegrate readonlyProperties)
                 (p_internalIntegrateInner readonlyProperties)
                 (p_applySubstitution readonlyProperties)
                 None
                 (p_internalHasVariable readonlyProperties)
                 (p_innermostVariable readonlyProperties)))"

section \<open>What the sources import\<close>

text \<open>
  \<open>util/bignum\<close> and \<open>./operations\<close> are not part of the sources. The operations of
  \<open>Decimal\<close> that the code calls, and the behaviour of every callback that is named
  rather than defined in the sources, are the fields of an environment that every
  method takes. An argument of a \<open>Decimal\<close> operation can be \<open>undefined\<close> at run time
  whatever its declared type, so the operations take \<open>'d val\<close>.

  An external callback is called as the code calls it, \<open>cb.call(this, ...)\<close>: it gets
  \<open>this\<close>, the arguments and the store, and returns a value or throws. An integrate
  callback also gets the substitution stack, an array it may push to; it returns the
  array's final contents. An entry of the stack is the closure
  \<open>v => this.applySubstitution!.call(this, v, ...this.inputs)\<close>, which is determined by
  its \<open>this\<close>: the stack is a list of formulas.
\<close>

type_synonym ('d, 'a) result = "(error + 'a) \<times> 'd store"

record 'd env =
  dNum :: "int \<Rightarrow> 'd"
  dAdd :: "'d val \<Rightarrow> 'd val \<Rightarrow> 'd"
  dSub :: "'d val \<Rightarrow> 'd val \<Rightarrow> 'd"
  dPow :: "'d val \<Rightarrow> 'd val \<Rightarrow> 'd"
  dDiv :: "'d val \<Rightarrow> 'd val \<Rightarrow> 'd"
  dFloor :: "'d val \<Rightarrow> 'd"
  dLt :: "'d val \<Rightarrow> 'd val \<Rightarrow> bool"
  dGt :: "'d val \<Rightarrow> 'd val \<Rightarrow> bool"
  dEq :: "'d val \<Rightarrow> 'd val \<Rightarrow> bool"
  extEvaluate :: "string \<Rightarrow> 'd val list \<Rightarrow> error + 'd val"
  extInvert ::
    "string \<Rightarrow> 'd formula \<Rightarrow> 'd val \<Rightarrow> 'd source list \<Rightarrow> 'd store \<Rightarrow> ('d, 'd val) result"
  extIntegrate ::
    "string \<Rightarrow> 'd formula \<Rightarrow> 'd val \<Rightarrow> 'd formula list option \<Rightarrow> 'd source list \<Rightarrow>
     'd store \<Rightarrow> ('d, 'd val \<times> 'd formula list) result"
  extSubstitution ::
    "string \<Rightarrow> 'd formula \<Rightarrow> 'd val \<Rightarrow> 'd source list \<Rightarrow> 'd store \<Rightarrow> ('d, 'd val) result"
  extInvertIntegral ::
    "string \<Rightarrow> 'd formula \<Rightarrow> 'd val \<Rightarrow> 'd source list \<Rightarrow> 'd store \<Rightarrow> ('d, 'd val) result"

section \<open>Evaluation\<close>

text \<open>\<open>xs[0]\<close>: \<open>undefined\<close> on an empty array.\<close>

definition first :: "'a list \<Rightarrow> 'a option" where
  "first xs = (case xs of [] \<Rightarrow> None | x # _ \<Rightarrow> Some x)"

text \<open>
  \<open>evaluate\<close> maps \<open>unrefFormulaSource\<close> over the inputs, left to right, only when
  \<open>internalEvaluate\<close> is defined (\<open>?.\<close> skips its arguments otherwise). \<open>evalStep\<close> is the
  closure of that name in \<open>Formula.step\<close>; its parameter \<open>lhs\<close> is the first argument.
\<close>

function (sequential) evaluate :: "'d env \<Rightarrow> 'd formula \<Rightarrow> 'd val \<Rightarrow> 'd store \<Rightarrow> ('d, 'd val) result"
and unrefFormulaSource :: "'d env \<Rightarrow> 'd source \<Rightarrow> 'd val \<Rightarrow> 'd store \<Rightarrow> ('d, 'd val) result"
and evaluate_inputs ::
  "'d env \<Rightarrow> 'd source list \<Rightarrow> 'd val \<Rightarrow> 'd store \<Rightarrow> ('d, 'd val list) result"
and call_evaluate :: "'d env \<Rightarrow> 'd evalfn \<Rightarrow> 'd val list \<Rightarrow> 'd store \<Rightarrow> ('d, 'd val) result"
and evalStep ::
  "'d env \<Rightarrow> nat \<Rightarrow> 'd formula \<Rightarrow> 'd computable \<Rightarrow> 'd val \<Rightarrow> 'd store \<Rightarrow> ('d, 'd val) result"
where
  "evaluate env (Formula ins ev iv ig igi sb ivi hv imv) variable st =
     (case (case ev of
              None \<Rightarrow> (Inr None, st)
            | Some cb \<Rightarrow>
                (case evaluate_inputs env ins variable st of
                   (Inl e, st1) \<Rightarrow> (Inl e, st1)
                 | (Inr args, st1) \<Rightarrow> call_evaluate env cb args st1)) of
        (Inl e, st2) \<Rightarrow> (Inl e, st2)
      | (Inr (Some r), st2) \<Rightarrow> (Inr (Some r), st2)
      | (Inr None, st2) \<Rightarrow>
          (case (if hv then variable else None) of
             Some v \<Rightarrow> (Inr (Some v), st2)
           | None \<Rightarrow>
               (case ins of
                  [] \<Rightarrow> (Inr None, st2)
                | x # _ \<Rightarrow> unrefFormulaSource env x None st2)))"
| "unrefFormulaSource env (SFormula f) variable st = evaluate env f variable st"
| "unrefFormulaSource env (SValue c) variable st = (Inr (Some (unref st c)), st)"
| "evaluate_inputs env [] variable st = (Inr [], st)"
| "evaluate_inputs env (x # xs) variable st =
     (case unrefFormulaSource env x variable st of
        (Inl e, st1) \<Rightarrow> (Inl e, st1)
      | (Inr v, st1) \<Rightarrow>
          (case evaluate_inputs env xs variable st1 of
             (Inl e, st2) \<Rightarrow> (Inl e, st2)
           | (Inr vs, st2) \<Rightarrow> (Inr (v # vs), st2)))"
| "call_evaluate env (EvalExt name) args st = (extEvaluate env name args, st)"
| "call_evaluate env (EvalStep lhsRef formula processedStart) args st =
     evalStep env lhsRef formula processedStart (case args of [] \<Rightarrow> None | lhs # _ \<Rightarrow> lhs) st"
| "evalStep env lhsRef formula processedStart lhs st =
     (if dLt env lhs (Some (unref st processedStart)) then (Inr lhs, st)
      else
        (case evaluate env formula None
                (write_ref lhsRef (dSub env lhs (Some (unref st processedStart))) st) of
           (Inl e, st1) \<Rightarrow> (Inl e, st1)
         | (Inr v, st1) \<Rightarrow> (Inr (Some (dAdd env v (Some (unref st1 processedStart)))), st1)))"
  by pat_completeness auto

termination
  by (relation "measure (\<lambda>x. case x of
        Inl (Inl (env, f, v, st)) \<Rightarrow> 2 * size f
      | Inl (Inr (env, s, v, st)) \<Rightarrow> 2 * size s
      | Inr (Inl (env, xs, v, st)) \<Rightarrow> 2 * size_list size xs
      | Inr (Inr (Inl (env, cb, args, st))) \<Rightarrow> 2 * size cb
      | Inr (Inr (Inr (env, r, g, ps, lhs, st))) \<Rightarrow> 2 * size g + 1)") auto

section \<open>Inversion\<close>

text \<open>
  \<open>invert\<close> calls its callback with the value and the inputs. \<open>invertStep\<close> is the closure
  of that name in \<open>Formula.step\<close>; its parameter \<open>lhs\<close> is the first input.
\<close>

function (sequential) invert :: "'d env \<Rightarrow> 'd formula \<Rightarrow> 'd val \<Rightarrow> 'd store \<Rightarrow> ('d, 'd val) result"
and invertStep ::
  "'d env \<Rightarrow> 'd formula \<Rightarrow> 'd computable \<Rightarrow> 'd val \<Rightarrow> 'd source list \<Rightarrow> 'd store \<Rightarrow>
   ('d, 'd val) result"
where
  "invert env (Formula ins ev iv ig igi sb ivi hv imv) val st =
     (case iv of
        Some (InvExt name) \<Rightarrow>
          extInvert env name (Formula ins ev iv ig igi sb ivi hv imv) val ins st
      | Some (InvStep lhsRef formula processedStart) \<Rightarrow>
          invertStep env formula processedStart val ins st
      | None \<Rightarrow>
          if length ins = 1 \<and> hv then (Inr val, st) else (Inl err_cannot_invert, st))"
| "invertStep env formula processedStart val (SFormula lhs # rest) st =
     (if hasVariable lhs then
        (if dGt env val (Some (unref st processedStart)) then
           (case invert env formula (Some (dSub env val (Some (unref st processedStart)))) st of
              (Inl e, st1) \<Rightarrow> (Inl e, st1)
            | (Inr v, st1) \<Rightarrow>
                invert env lhs (Some (dAdd env v (Some (unref st1 processedStart)))) st1)
         else invert env lhs val st)
      else (Inl err_no_input_variable, st))"
| "invertStep env formula processedStart val ins st = (Inl err_no_input_variable, st)"
  by pat_completeness auto

termination
  by (relation "measure (\<lambda>x. case x of
        Inl (env, f, v, st) \<Rightarrow> 2 * size f
      | Inr (env, g, ps, v, xs, st) \<Rightarrow> 2 * (size g + size_list size xs) + 1)") auto

section \<open>Integration\<close>

definition integrateVariable :: "'d env \<Rightarrow> 'd val \<Rightarrow> 'd" where
  "integrateVariable env variable =
     dDiv env (Some (dPow env variable (Some (dNum env 2)))) (Some (dNum env 2))"

definition integrateVariableInner ::
  "'d formula \<Rightarrow> 'd val \<Rightarrow> 'd store \<Rightarrow> ('d, 'd val) result" where
  "integrateVariableInner this variable st =
     (if is_null variable \<and> is_null (innermostVariable this)
      then (Inl err_integrate_nonexistent_variable, st)
      else (Inr (nullish variable (unref_opt st (innermostVariable this))), st))"

text \<open>
  \<open>cb.call(this, variable, stack, ...this.inputs)\<close> for an integrate callback. The two
  callbacks of the sources take \<open>variable\<close> only and leave the stack as it is.
\<close>

definition call_integrate ::
  "'d env \<Rightarrow> intfn \<Rightarrow> 'd formula \<Rightarrow> 'd val \<Rightarrow> 'd formula list option \<Rightarrow> 'd source list \<Rightarrow>
   'd store \<Rightarrow> ('d, 'd val \<times> 'd formula list) result" where
  "call_integrate env cb this variable stack ins st =
     (case cb of
        IntegrateVariable \<Rightarrow>
          (Inr (Some (integrateVariable env variable), case stack of None \<Rightarrow> [] | Some s \<Rightarrow> s), st)
      | IntegrateVariableInner \<Rightarrow>
          (case integrateVariableInner this variable st of
             (Inl e, st1) \<Rightarrow> (Inl e, st1)
           | (Inr v, st1) \<Rightarrow> (Inr (v, case stack of None \<Rightarrow> [] | Some s \<Rightarrow> s), st1))
      | IntExt name \<Rightarrow> extIntegrate env name this variable stack ins st)"

text \<open>
  The closure pushed by \<open>this\<close>: \<open>v => this.applySubstitution!.call(this, v, ...this.inputs)\<close>.
\<close>

definition apply_closure :: "'d env \<Rightarrow> 'd formula \<Rightarrow> 'd val \<Rightarrow> 'd store \<Rightarrow> ('d, 'd val) result" where
  "apply_closure env this v st =
     (case applySubstitution this of
        None \<Rightarrow> (Inl TypeError, st)
      | Some name \<Rightarrow> extSubstitution env name this v (inputs this) st)"

text \<open>\<open>stack.forEach(func => (value = func(value)))\<close>.\<close>

fun apply_stack :: "'d env \<Rightarrow> 'd formula list \<Rightarrow> 'd val \<Rightarrow> 'd store \<Rightarrow> ('d, 'd val) result" where
  "apply_stack env [] v st = (Inr v, st)"
| "apply_stack env (func # stack) v st =
     (case apply_closure env func v st of
        (Inl e, st1) \<Rightarrow> (Inl e, st1)
      | (Inr v1, st1) \<Rightarrow> apply_stack env stack v1 st1)"

text \<open>\<open>variable ?? unrefFormulaSource(this.inputs[0])\<close>.\<close>

definition variable_or_first_input ::
  "'d env \<Rightarrow> 'd formula \<Rightarrow> 'd val \<Rightarrow> 'd store \<Rightarrow> ('d, 'd val) result" where
  "variable_or_first_input env this variable st =
     (case variable of
        Some v \<Rightarrow> (Inr (Some v), st)
      | None \<Rightarrow>
          (case inputs this of
             [] \<Rightarrow> (Inr None, st)
           | x # _ \<Rightarrow> unrefFormulaSource env x None st))"

text \<open>
  \<open>evaluateIntegral(variable, stack)\<close> returns the value and what the array \<open>stack\<close>
  holds when the call returns (\<open>None\<close> when no array was passed).
\<close>

definition evaluateIntegral ::
  "'d env \<Rightarrow> 'd formula \<Rightarrow> 'd val \<Rightarrow> 'd formula list option \<Rightarrow> 'd store \<Rightarrow>
   ('d, 'd val \<times> 'd formula list option) result" where
  "evaluateIntegral env this variable stack st =
     (case stack of
        None \<Rightarrow>
          (case applySubstitution this of
             None \<Rightarrow>
               (case internalIntegrate this of
                  None \<Rightarrow> (Inl err_nonexistent_operation, st)
                | Some cb \<Rightarrow>
                    (case call_integrate env cb this variable (Some []) (inputs this) st of
                       (Inl e, st1) \<Rightarrow> (Inl e, st1)
                     | (Inr (v, stack1), st1) \<Rightarrow>
                         (case apply_stack env stack1 v st1 of
                            (Inl e, st2) \<Rightarrow> (Inl e, st2)
                          | (Inr v2, st2) \<Rightarrow> (Inr (v2, None), st2))))
           | Some _ \<Rightarrow>
               (case internalIntegrate this of
                  Some cb \<Rightarrow>
                    (case call_integrate env cb this variable None (inputs this) st of
                       (Inl e, st1) \<Rightarrow> (Inl e, st1)
                     | (Inr (v, _), st1) \<Rightarrow> (Inr (v, None), st1))
                | None \<Rightarrow>
                    if length (inputs this) = 1 \<and> internalHasVariable this then
                      (case variable_or_first_input env this variable st of
                         (Inl e, st1) \<Rightarrow> (Inl e, st1)
                       | (Inr v, st1) \<Rightarrow> (Inr (Some (integrateVariable env v), None), st1))
                    else (Inl err_integrate_without_variable, st)))
      | Some stk \<Rightarrow>
          (case applySubstitution this of
             None \<Rightarrow> (Inl err_two_complex, st)
           | Some _ \<Rightarrow>
               (case internalIntegrateInner this of
                  Some cb \<Rightarrow>
                    (case call_integrate env cb this variable (Some (stk @ [this])) (inputs this) st of
                       (Inl e, st1) \<Rightarrow> (Inl e, st1)
                     | (Inr (v, stack1), st1) \<Rightarrow> (Inr (v, Some stack1), st1))
                | None \<Rightarrow>
                    (case internalIntegrate this of
                       Some cb \<Rightarrow>
                         (case call_integrate env cb this variable (Some (stk @ [this]))
                                 (inputs this) st of
                            (Inl e, st1) \<Rightarrow> (Inl e, st1)
                          | (Inr (v, stack1), st1) \<Rightarrow> (Inr (v, Some stack1), st1))
                     | None \<Rightarrow>
                         if length (inputs this) = 1 \<and> internalHasVariable this then
                           (case variable_or_first_input env this variable st of
                              (Inl e, st1) \<Rightarrow> (Inl e, st1)
                            | (Inr v, st1) \<Rightarrow> (Inr (v, Some (stk @ [this])), st1))
                         else (Inl err_integrate_without_variable, st)))))"


section \<open>Structural equality\<close>

text \<open>
  \<open>every\<close> runs only when the lengths agree; \<open>other.inputs[i]\<close> past the end would be
  \<open>undefined\<close>. The callbacks are compared with \<open>===\<close>.
\<close>

function (sequential) equals :: "'d env \<Rightarrow> 'd store \<Rightarrow> 'd formula \<Rightarrow> 'd formula \<Rightarrow> bool"
and equals_inputs :: "'d env \<Rightarrow> 'd store \<Rightarrow> 'd source list \<Rightarrow> 'd source list \<Rightarrow> bool"
where
  "equals env st (Formula ins ev iv ig igi sb ivi hv imv) other =
     (length ins = length (inputs other) \<and>
      equals_inputs env st ins (inputs other) \<and>
      ev = internalEvaluate other \<and>
      iv = internalInvert other \<and>
      ig = internalIntegrate other \<and>
      ivi = internalInvertIntegral other \<and>
      hv = internalHasVariable other)"
| "equals_inputs env st [] others = True"
| "equals_inputs env st (SFormula a # xs) others =
     ((case first others of
         Some (SFormula b) \<Rightarrow> equals env st a b
       | _ \<Rightarrow> False) \<and>
      equals_inputs env st xs (tl others))"
| "equals_inputs env st (SValue a # xs) others =
     ((case first others of
         Some (SFormula b) \<Rightarrow> False
       | Some (SValue b) \<Rightarrow> dEq env (Some (unref st a)) (Some (unref st b))
       | None \<Rightarrow> dEq env (Some (unref st a)) None) \<and>
      equals_inputs env st xs (tl others))"
  by pat_completeness auto

termination
  by (relation "measure (\<lambda>x. case x of
        Inl (env, st, f, g) \<Rightarrow> 2 * size f
      | Inr (env, st, xs, ys) \<Rightarrow> 2 * size_list size xs + 1)") auto

section \<open>Factories\<close>

text \<open>
  Every factory is \<open>new Formula({...})\<close> with the callbacks of its operation; an option
  the factory leaves out is \<open>undefined\<close>. The instance methods pass \<open>this\<close> as the first
  input.
\<close>

definition Formula_constant :: "'d computable \<Rightarrow> error + 'd formula" where
  "Formula_constant v = new_Formula (ConstantOptions [SValue v])"

definition Formula_variable :: "'d computable \<Rightarrow> error + 'd formula" where
  "Formula_variable v = new_Formula (VariableOptions v)"

definition Formula_abs :: "'d source \<Rightarrow> error + 'd formula" where
  "Formula_abs v =
     new_Formula (GeneralOptions
       \<lparr>o_inputs = [v],
        o_evaluate = EvalExt ''Decimal.abs'',
        o_invert = None,
        o_integrate = None,
        o_integrateInner = None,
        o_applySubstitution = None,
        o_invertIntegral = None,
        o_hasVariable = None\<rparr>)"

definition Formula_sign :: "'d source \<Rightarrow> error + 'd formula" where
  "Formula_sign v =
     new_Formula (GeneralOptions
       \<lparr>o_inputs = [v],
        o_evaluate = EvalExt ''Decimal.sign'',
        o_invert = None,
        o_integrate = None,
        o_integrateInner = None,
        o_applySubstitution = None,
        o_invertIntegral = None,
        o_hasVariable = None\<rparr>)"

definition Formula_add :: "'d source \<Rightarrow> 'd source \<Rightarrow> error + 'd formula" where
  "Formula_add v other =
     new_Formula (GeneralOptions
       \<lparr>o_inputs = [v, other],
        o_evaluate = EvalExt ''Decimal.add'',
        o_invert = Some (InvExt ''ops.invertAdd''),
        o_integrate = Some (IntExt ''ops.integrateAdd''),
        o_integrateInner = Some (IntExt ''ops.integrateInnerAdd''),
        o_applySubstitution = Some ''ops.passthrough'',
        o_invertIntegral = Some ''ops.invertIntegrateAdd'',
        o_hasVariable = None\<rparr>)"

definition Formula_mul :: "'d source \<Rightarrow> 'd source \<Rightarrow> error + 'd formula" where
  "Formula_mul v other =
     new_Formula (GeneralOptions
       \<lparr>o_inputs = [v, other],
        o_evaluate = EvalExt ''Decimal.mul'',
        o_invert = Some (InvExt ''ops.invertMul''),
        o_integrate = Some (IntExt ''ops.integrateMul''),
        o_integrateInner = None,
        o_applySubstitution = Some ''ops.applySubstitutionMul'',
        o_invertIntegral = Some ''ops.invertIntegrateMul'',
        o_hasVariable = None\<rparr>)"

definition Formula_pow :: "'d source \<Rightarrow> 'd source \<Rightarrow> error + 'd formula" where
  "Formula_pow v other =
     new_Formula (GeneralOptions
       \<lparr>o_inputs = [v, other],
        o_evaluate = EvalExt ''Decimal.pow'',
        o_invert = Some (InvExt ''ops.invertPow''),
        o_integrate = Some (IntExt ''ops.integratePow''),
        o_integrateInner = None,
        o_applySubstitution = None,
        o_invertIntegral = Some ''ops.invertIntegratePow'',
        o_hasVariable = None\<rparr>)"

definition add :: "'d formula \<Rightarrow> 'd source \<Rightarrow> error + 'd formula" where
  "add this v = Formula_add (SFormula this) v"

definition mul :: "'d formula \<Rightarrow> 'd source \<Rightarrow> error + 'd formula" where
  "mul this v = Formula_mul (SFormula this) v"

definition pow :: "'d formula \<Rightarrow> 'd source \<Rightarrow> error + 'd formula" where
  "pow this v = Formula_pow (SFormula this) v"

text \<open>
  Modelled from the spec: \<open>convertComputable\<close> of \<open>util/computed\<close>, which is not part of
  the sources. The spec's computable value is "either a plain numeric value or a live
  cell that can be read"; both are processed already, so the conversion returns its
  argument.
\<close>

definition convertComputable :: "'d computable \<Rightarrow> 'd computable" where
  "convertComputable c = c"

text \<open>
  \<open>Formula.step\<close> allocates \<open>lhsRef\<close>, applies the modifier to a variable on that cell
  and builds the node from the closures \<open>evalStep\<close> and \<open>invertStep\<close>. The modifier is a
  function of the caller that builds a formula or throws.
\<close>

definition Formula_step ::
  "'d env \<Rightarrow> 'd source \<Rightarrow> 'd computable \<Rightarrow> ('d formula \<Rightarrow> error + 'd formula) \<Rightarrow> 'd store \<Rightarrow>
   ('d, 'd formula) result" where
  "Formula_step env v start formulaModifier st =
     (case new_ref (dNum env 0) st of
        (lhsRef, st1) \<Rightarrow>
          (case Formula_variable (Ref lhsRef) of
             Inl e \<Rightarrow> (Inl e, st1)
           | Inr x \<Rightarrow>
               (case formulaModifier x of
                  Inl e \<Rightarrow> (Inl e, st1)
                | Inr formula \<Rightarrow>
                    (let processedStart = convertComputable start
                     in (new_Formula (GeneralOptions
                           \<lparr>o_inputs = [v],
                            o_evaluate = EvalStep lhsRef formula processedStart,
                            o_invert =
                              (if isInvertible formula \<and> hasVariable formula
                               then Some (InvStep lhsRef formula processedStart) else None),
                            o_integrate = None,
                            o_integrateInner = None,
                            o_applySubstitution = None,
                            o_invertIntegral = None,
                            o_hasVariable = None\<rparr>), st1)))))"

definition step ::
  "'d env \<Rightarrow> 'd formula \<Rightarrow> 'd computable \<Rightarrow> ('d formula \<Rightarrow> error + 'd formula) \<Rightarrow> 'd store \<Rightarrow>
   ('d, 'd formula) result" where
  "step env this start formulaModifier st = Formula_step env (SFormula this) start formulaModifier st"

section \<open>Purchase utilities\<close>


definition calculateCost ::
  "'d env \<Rightarrow> 'd formula \<Rightarrow> 'd \<Rightarrow> bool \<Rightarrow> 'd store \<Rightarrow> ('d, 'd val) result" where
  "calculateCost env formula amountToBuy spendResources st =
     (let newValue =
            dAdd env (Some amountToBuy)
              (nullish (unref_opt st (innermostVariable formula)) (Some (dNum env 0)))
      in if spendResources then
           (case evaluateIntegral env formula (Some newValue) None st of
              (Inl e, st1) \<Rightarrow> (Inl e, st1)
            | (Inr (a, _), st1) \<Rightarrow>
                (case evaluateIntegral env formula None None st1 of
                   (Inl e, st2) \<Rightarrow> (Inl e, st2)
                 | (Inr (b, _), st2) \<Rightarrow> (Inr (Some (dSub env a b)), st2)))
         else evaluate env formula (Some newValue) st)"

section \<open>Running the model\<close>

text \<open>
  An instance of the environment, to run the model on concrete inputs: exact rational
  arithmetic, \<open>undefined\<close> read as zero, powers with the exponent rounded down to a
  natural number. \<open>Decimal.add\<close>, \<open>Decimal.mul\<close> and \<open>Decimal.pow\<close> are the evaluate
  callbacks of that name; every other external callback throws.
\<close>

definition num_of :: "rat val \<Rightarrow> rat" where
  "num_of v = (case v of None \<Rightarrow> 0 | Some x \<Rightarrow> x)"

definition exact_evaluate :: "string \<Rightarrow> rat val list \<Rightarrow> error + rat val" where
  "exact_evaluate name args =
     (if name = ''Decimal.add'' then
        (case args of [a, b] \<Rightarrow> Inr (Some (num_of a + num_of b)) | _ \<Rightarrow> Inl (External name))
      else if name = ''Decimal.mul'' then
        (case args of [a, b] \<Rightarrow> Inr (Some (num_of a * num_of b)) | _ \<Rightarrow> Inl (External name))
      else if name = ''Decimal.pow'' then
        (case args of [a, b] \<Rightarrow> Inr (Some (num_of a ^ nat \<lfloor>num_of b\<rfloor>))
         | _ \<Rightarrow> Inl (External name))
      else Inl (External name))"

definition exact_env :: "rat env" where
  "exact_env =
     \<lparr>dNum = of_int,
      dAdd = (\<lambda>a b. num_of a + num_of b),
      dSub = (\<lambda>a b. num_of a - num_of b),
      dPow = (\<lambda>a b. num_of a ^ nat \<lfloor>num_of b\<rfloor>),
      dDiv = (\<lambda>a b. num_of a / num_of b),
      dFloor = (\<lambda>a. of_int \<lfloor>num_of a\<rfloor>),
      dLt = (\<lambda>a b. num_of a < num_of b),
      dGt = (\<lambda>a b. num_of a > num_of b),
      dEq = (\<lambda>a b. num_of a = num_of b),
      extEvaluate = exact_evaluate,
      extInvert = (\<lambda>name this v ins st. (Inl (External name), st)),
      extIntegrate = (\<lambda>name this v stack ins st. (Inl (External name), st)),
      extSubstitution = (\<lambda>name this v ins st. (Inl (External name), st)),
      extInvertIntegral = (\<lambda>name this v ins st. (Inl (External name), st))\<rparr>"

text \<open>A store with \<open>n\<close> cells allocated, all of them holding \<open>v\<close>.\<close>

definition store_of :: "'d \<Rightarrow> nat \<Rightarrow> 'd store" where
  "store_of v n = \<lparr>cells = (\<lambda>_. v), fresh = n\<rparr>"

text \<open>
  The formulas of the scenarios, written out: the variable on cell 0 (\<open>x\<close>) and on
  cell 1 (\<open>y\<close>), \<open>x.add(1)\<close>, \<open>x.add(1).pow(2)\<close>, \<open>x.mul(2)\<close>,
  \<open>Formula.add(x, y)\<close>, \<open>x.step(150, v => v.mul(2))\<close>, \<open>Formula.constant(5)\<close>, and
  the node that both \<open>Formula.abs(1)\<close> and \<open>Formula.sign(1)\<close> build. That the factories
  return them is proved below.
\<close>

definition variable_x :: "rat formula" where
  "variable_x =
     Formula [SValue (Ref 0)] None None (Some IntegrateVariable) (Some IntegrateVariableInner)
       (Some ''ops.passthrough'') None True (Some (Ref 0))"

definition variable_y :: "rat formula" where
  "variable_y =
     Formula [SValue (Ref 1)] None None (Some IntegrateVariable) (Some IntegrateVariableInner)
       (Some ''ops.passthrough'') None True (Some (Ref 1))"

definition x_plus_1 :: "rat formula" where
  "x_plus_1 =
     Formula [SFormula variable_x, SValue (Plain 1)] None None (Some (IntExt ''ops.integrateAdd''))
       (Some (IntExt ''ops.integrateInnerAdd'')) (Some ''ops.passthrough'') None True
       (Some (Ref 0))"

definition x_plus_1_squared :: "rat formula" where
  "x_plus_1_squared =
     Formula [SFormula x_plus_1, SValue (Plain 2)] None None (Some (IntExt ''ops.integratePow''))
       None None None True (Some (Ref 0))"

definition x_times_2 :: "rat formula" where
  "x_times_2 =
     Formula [SFormula variable_x, SValue (Plain 2)] None None (Some (IntExt ''ops.integrateMul''))
       None (Some ''ops.applySubstitutionMul'') None True (Some (Ref 0))"

definition x_plus_y :: "rat formula" where
  "x_plus_y =
     Formula [SFormula variable_x, SFormula variable_y] None None
       (Some (IntExt ''ops.integrateAdd'')) (Some (IntExt ''ops.integrateInnerAdd''))
       (Some ''ops.passthrough'') None False None"

definition x_stepped :: "rat formula" where
  "x_stepped = Formula [SFormula variable_x] None None None None None None True (Some (Ref 0))"

definition constant_5 :: "rat formula" where
  "constant_5 = Formula [SValue (Plain 5)] None None None None None None False None"

definition node_of_1 :: "rat formula" where
  "node_of_1 = Formula [SValue (Plain 1)] None None None None None None False None"

section \<open>What the constructor keeps\<close>

lemma new_Formula_callbacks:
  assumes "new_Formula options = Inr f"
  shows "internalEvaluate f = None" and "internalInvert f = None"
    and "internalInvertIntegral f = None"
  using assms by (auto simp: new_Formula_def split: sum.splits)

lemma new_Formula_general_inputs:
  assumes "new_Formula (GeneralOptions opts) = Inr f"
  shows "inputs f = o_inputs opts"
  using assms
  by (auto simp: new_Formula_def setupFormula_def Let_def split: sum.splits if_splits)

lemma evaluate_without_callback:
  assumes "internalEvaluate f = None"
  shows "evaluate env f variable st =
           (case (if internalHasVariable f then variable else None) of
              Some v \<Rightarrow> (Inr (Some v), st)
            | None \<Rightarrow>
                (case inputs f of
                   [] \<Rightarrow> (Inr None, st)
                 | x # _ \<Rightarrow> unrefFormulaSource env x None st))"
  using assms by (cases f) (auto split: option.splits list.splits)

lemma invert_without_callback:
  assumes "internalInvert f = None"
  shows "invert env f v st =
           (if length (inputs f) = 1 \<and> internalHasVariable f then (Inr v, st)
            else (Inl err_cannot_invert, st))"
  using assms by (cases f) simp

lemmas build_defs =
  new_Formula_def setupVariable_def setupConstant_def setupFormula_def find_variable_def
  hasVariable_source_def hasVariable_def isInvertible_def isIntegralInvertible_def
  is_null_def non_null_def Let_def

lemma build_variable_x: "Formula_variable (Ref 0) = Inr variable_x"
  by (simp add: Formula_variable_def variable_x_def build_defs)

lemma build_variable_y: "Formula_variable (Ref 1) = Inr variable_y"
  by (simp add: Formula_variable_def variable_y_def build_defs)

lemma build_x_plus_1: "add variable_x (SValue (Plain 1)) = Inr x_plus_1"
  by (simp add: add_def Formula_add_def x_plus_1_def variable_x_def build_defs)

lemma build_x_plus_1_squared: "pow x_plus_1 (SValue (Plain 2)) = Inr x_plus_1_squared"
  by (simp add: pow_def Formula_pow_def x_plus_1_squared_def x_plus_1_def build_defs)

lemma build_x_times_2: "mul variable_x (SValue (Plain 2)) = Inr x_times_2"
  by (simp add: mul_def Formula_mul_def x_times_2_def variable_x_def build_defs)

lemma build_x_plus_y: "Formula_add (SFormula variable_x) (SFormula variable_y) = Inr x_plus_y"
  by (simp add: Formula_add_def x_plus_y_def variable_x_def variable_y_def build_defs)

lemma build_constant_5: "Formula_constant (Plain 5) = Inr constant_5"
  by (simp add: Formula_constant_def constant_5_def build_defs)

lemma build_abs_1: "Formula_abs (SValue (Plain 1)) = Inr node_of_1"
  by (simp add: Formula_abs_def node_of_1_def build_defs)

lemma build_sign_1: "Formula_sign (SValue (Plain 1)) = Inr node_of_1"
  by (simp add: Formula_sign_def node_of_1_def build_defs)

lemma build_x_stepped:
  "step env variable_x (Plain 150) (\<lambda>v. mul v (SValue (Plain 2))) st =
     (Inr x_stepped, snd (new_ref (dNum env 0) st))"
  by (simp add: step_def Formula_step_def Formula_variable_def mul_def Formula_mul_def
      new_ref_def convertComputable_def x_stepped_def variable_x_def build_defs)

text \<open>
  C1. A node built on the \<open>setupFormula\<close> path has no \<open>internalEvaluate\<close>, no
  \<open>internalInvert\<close> and no \<open>internalInvertIntegral\<close>, whatever callbacks the options
  carry. So \<open>evaluate\<close> does not call the operation's evaluate callback: with an override
  on a node that has the variable it returns the override, and otherwise the value of the
  first input; and \<open>invert\<close> throws on every such node with more than one input.
\<close>

theorem operation_node_callbacks_dropped:
  assumes "new_Formula (GeneralOptions opts) = Inr f"
  shows "internalEvaluate f = None \<and> internalInvert f = None \<and> internalInvertIntegral f = None \<and>
         (internalHasVariable f \<longrightarrow> evaluate env f (Some x) st = (Inr (Some x), st)) \<and>
         (\<not> internalHasVariable f \<or> variable = None \<longrightarrow>
            evaluate env f variable st =
              (case o_inputs opts of
                 [] \<Rightarrow> (Inr None, st)
               | i # _ \<Rightarrow> unrefFormulaSource env i None st)) \<and>
         (1 < length (o_inputs opts) \<longrightarrow> invert env f v st = (Inl err_cannot_invert, st))"
proof -
  note cb = new_Formula_callbacks [OF assms]
  have ins: "inputs f = o_inputs opts"
    by (rule new_Formula_general_inputs [OF assms])
  show ?thesis
    using cb ins
    by (auto simp: evaluate_without_callback invert_without_callback)
qed

theorem operation_node_callbacks_dropped_witness:
  "Formula_add (SFormula variable_x) (SValue (Plain 1)) = Inr x_plus_1 \<and>
   internalEvaluate x_plus_1 = None \<and> internalInvert x_plus_1 = None \<and>
   internalInvertIntegral x_plus_1 = None \<and>
   evaluate exact_env x_plus_1 (Some 3) (store_of 7 1) = (Inr (Some 3), store_of 7 1) \<and>
   evaluate exact_env x_plus_1 None (store_of 7 1) = (Inr (Some 7), store_of 7 1) \<and>
   invert exact_env x_plus_1 (Some 4) (store_of 7 1) = (Inl err_cannot_invert, store_of 7 1)"
proof -
  have h: "new_Formula (GeneralOptions
             \<lparr>o_inputs = [SFormula variable_x, SValue (Plain 1)],
              o_evaluate = EvalExt ''Decimal.add'',
              o_invert = Some (InvExt ''ops.invertAdd''),
              o_integrate = Some (IntExt ''ops.integrateAdd''),
              o_integrateInner = Some (IntExt ''ops.integrateInnerAdd''),
              o_applySubstitution = Some ''ops.passthrough'',
              o_invertIntegral = Some ''ops.invertIntegrateAdd'',
              o_hasVariable = None\<rparr>) = Inr x_plus_1"
    using build_x_plus_1 by (simp add: add_def Formula_add_def)
  have v: "internalHasVariable x_plus_1"
    by (simp add: x_plus_1_def)
  have x: "evaluate exact_env variable_x None (store_of 7 1) = (Inr (Some 7), store_of 7 1)"
    by (simp add: variable_x_def unref_def store_of_def)
  show ?thesis
    using operation_node_callbacks_dropped
            [OF h, where env = exact_env and x = 3 and st = "store_of 7 1" and v = "Some 4"
               and variable = None]
          v x build_x_plus_1
    by (simp add: add_def)
qed

text \<open>
  C2. \<open>variable(x).add(1).pow(2)\<close>: evaluated with the override 3 the code returns 3,
  not 16, and \<open>invert(16)\<close> throws instead of returning 3, in every environment and
  store.
\<close>

theorem add_pow_scenario:
  "Formula_variable (Ref 0) = Inr variable_x \<and>
   add variable_x (SValue (Plain 1)) = Inr x_plus_1 \<and>
   pow x_plus_1 (SValue (Plain 2)) = Inr x_plus_1_squared \<and>
   evaluate env x_plus_1_squared (Some 3) st = (Inr (Some 3), st) \<and>
   invert env x_plus_1_squared (Some 16) st = (Inl err_cannot_invert, st)"
  by (intro conjI build_variable_x build_x_plus_1 build_x_plus_1_squared)
     (simp_all add: x_plus_1_squared_def)

text \<open>
  On a constructed formula \<open>isInvertible()\<close> is \<open>hasVariable()\<close>, and a formula that
  is not invertible does throw from \<open>invert\<close>.
\<close>

lemma isInvertible_constructed:
  assumes "new_Formula options = Inr f"
  shows "isInvertible f = internalHasVariable f"
  using new_Formula_callbacks [OF assms] by (simp add: isInvertible_def is_null_def)

lemma invert_throws_when_not_invertible:
  assumes "new_Formula options = Inr f" and "\<not> isInvertible f"
  shows "invert env f v st = (Inl err_cannot_invert, st)"
  using assms isInvertible_constructed [OF assms(1)] new_Formula_callbacks(2) [OF assms(1)]
  by (simp add: invert_without_callback)

text \<open>
  C3. \<open>Formula.add(variable(x), 1)\<close> answers \<open>isInvertible()\<close> with true, and its
  \<open>invert\<close> throws.
\<close>

theorem invertible_add_not_inverted:
  "Formula_variable (Ref 0) = Inr variable_x \<and>
   Formula_add (SFormula variable_x) (SValue (Plain 1)) = Inr x_plus_1 \<and>
   isInvertible x_plus_1 \<and>
   invert env x_plus_1 (Some 5) st = (Inl err_cannot_invert, st)"
  using build_x_plus_1
  by (intro conjI build_variable_x)
     (simp_all add: add_def x_plus_1_def isInvertible_def is_null_def)

text \<open>
  C4, as stated, fails: \<open>Formula.add(variable(x), variable(y))\<close> has two inputs that
  carry a variable, and the constructor returns a node.
\<close>

theorem two_variables_accepted:
  "Formula_variable (Ref 0) = Inr variable_x \<and>
   Formula_variable (Ref 1) = Inr variable_y \<and>
   hasVariable variable_x \<and> hasVariable variable_y \<and>
   Formula_add (SFormula variable_x) (SFormula variable_y) = Inr x_plus_y"
  by (intro conjI build_variable_x build_variable_y build_x_plus_y)
     (simp_all add: hasVariable_def variable_x_def variable_y_def)

text \<open>
  C4, amended. An operation node whose inputs contain more than one variable-bearing
  subtree is not rejected for that: construction fails only when the \<open>hasVariable\<close>
  option is set and neither an invert nor an invert-integral callback is given, and
  otherwise it returns a node that keeps the inputs, has \<open>has-variable = false\<close> and has
  no innermost variable.
\<close>

theorem operation_node_many_variables:
  assumes "1 < length (filter hasVariable_source (o_inputs opts))"
  shows "new_Formula (GeneralOptions opts) =
           (if is_null (o_invert opts) \<and> is_null (o_invertIntegral opts) \<and>
               o_hasVariable opts = Some True
            then Inl err_variable_not_invertible
            else Inr (Formula (o_inputs opts) None None (o_integrate opts)
                        (o_integrateInner opts) (o_applySubstitution opts) None False None))"
  using assms by (auto simp: new_Formula_def setupFormula_def Let_def)

theorem operation_node_many_variables_witness:
  "1 < length (filter hasVariable_source [SFormula variable_x, SFormula variable_y]) \<and>
   new_Formula (GeneralOptions
     \<lparr>o_inputs = [SFormula variable_x, SFormula variable_y],
      o_evaluate = EvalExt ''Decimal.add'',
      o_invert = Some (InvExt ''ops.invertAdd''),
      o_integrate = Some (IntExt ''ops.integrateAdd''),
      o_integrateInner = Some (IntExt ''ops.integrateInnerAdd''),
      o_applySubstitution = Some ''ops.passthrough'',
      o_invertIntegral = Some ''ops.invertIntegrateAdd'',
      o_hasVariable = None\<rparr>) =
     Inr (Formula [SFormula variable_x, SFormula variable_y] None None
            (Some (IntExt ''ops.integrateAdd'')) (Some (IntExt ''ops.integrateInnerAdd''))
            (Some ''ops.passthrough'') None False None)"
proof -
  have h: "1 < length (filter hasVariable_source
                         (o_inputs \<lparr>o_inputs = [SFormula variable_x, SFormula variable_y],
                            o_evaluate = EvalExt ''Decimal.add'',
                            o_invert = Some (InvExt ''ops.invertAdd''),
                            o_integrate = Some (IntExt ''ops.integrateAdd''),
                            o_integrateInner = Some (IntExt ''ops.integrateInnerAdd''),
                            o_applySubstitution = Some ''ops.passthrough'',
                            o_invertIntegral = Some ''ops.invertIntegrateAdd'',
                            o_hasVariable = None\<rparr>))"
    by (simp add: hasVariable_source_def hasVariable_def variable_x_def variable_y_def)
  show ?thesis
    using h operation_node_many_variables [OF h]
    by (simp add: is_null_def)
qed

text \<open>
  C5. When \<open>evaluateIntegral\<close> is called with a stack on a node that has no
  apply-substitution callback, the call throws "Cannot have two complex operations in
  an integrable formula".
\<close>

theorem inner_complex_operation_fails:
  assumes "applySubstitution f = None"
  shows "evaluateIntegral env f variable (Some stack) st = (Inl err_two_complex, st)"
  using assms by (simp add: evaluateIntegral_def)

theorem inner_complex_operation_fails_witness:
  "applySubstitution x_plus_1_squared = None \<and>
   evaluateIntegral exact_env x_plus_1_squared (Some 3) (Some [x_times_2]) (store_of 0 1) =
     (Inl err_two_complex, store_of 0 1)"
proof -
  have h: "applySubstitution x_plus_1_squared = None"
    by (simp add: x_plus_1_squared_def)
  show ?thesis
    using h inner_complex_operation_fails [OF h, of exact_env "Some 3" "[x_times_2]" "store_of 0 1"]
    by simp
qed

section \<open>The purchase utilities on the variable leaf\<close>

lemma exact_env_simps:
  "dNum exact_env = of_int"
  "dAdd exact_env a b = num_of a + num_of b"
  "dSub exact_env a b = num_of a - num_of b"
  "dPow exact_env a b = num_of a ^ nat \<lfloor>num_of b\<rfloor>"
  "dDiv exact_env a b = num_of a / num_of b"
  "dFloor exact_env a = of_int \<lfloor>num_of a\<rfloor>"
  "dEq exact_env a b = (num_of a = num_of b)"
  by (simp_all add: exact_env_def)

lemma num_of_simps: "num_of None = 0" "num_of (Some q) = q"
  by (simp_all add: num_of_def)

lemma unref_simps: "unref (store_of q n) (Ref r) = q" "unref st (Plain q) = q"
  by (simp_all add: unref_def store_of_def)

text \<open>
  The variable leaf integrates through \<open>integrateVariable\<close>, which gets the override as
  it is: with no override, \<open>Decimal.pow\<close> is called on \<open>undefined\<close>.
\<close>

lemma integral_variable_x:
  "evaluateIntegral exact_env variable_x variable None st =
     (Inr (Some (num_of variable ^ 2 / 2), None), st)"
  by (simp add: evaluateIntegral_def call_integrate_def integrateVariable_def variable_x_def
      exact_env_simps num_of_simps)



lemma caps_variable_x:
  "isIntegrable variable_x" "isIntegralInvertible variable_x" "isInvertible variable_x"
  "innermostVariable variable_x = Some (Ref 0)"
  by (simp_all add: variable_x_def isIntegrable_def isIntegralInvertible_def isInvertible_def
      is_null_def non_null_def)




text \<open>
  What \<open>calculateCost\<close> calls: with \<open>spendResources\<close> the integral at \<open>amountToBuy\<close>
  plus the current value of the innermost variable (0 when there is none) and then the
  integral with no override; without it, \<open>evaluate\<close> at the same value.
\<close>

lemma calculateCost_calls:
  "(evaluateIntegral env f
      (Some (dAdd env (Some n)
               (nullish (unref_opt st (innermostVariable f)) (Some (dNum env 0))))) None st =
      (Inr (a, k), st1) \<and>
    evaluateIntegral env f None None st1 = (Inr (b, k'), st2) \<longrightarrow>
      calculateCost env f n True st = (Inr (Some (dSub env a b)), st2)) \<and>
   calculateCost env f n False st =
     evaluate env f
       (Some (dAdd env (Some n)
                (nullish (unref_opt st (innermostVariable f)) (Some (dNum env 0))))) st"
  by (simp add: calculateCost_def Let_def)

text \<open>
  On the variable leaf the integral with no override is \<open>integrateVariable(undefined)\<close>
  in every environment: it does not read the cell of the variable, so it is the same
  in every store.
\<close>

lemma integral_variable_x_no_override:
  "evaluateIntegral env variable_x None None st =
     (Inr (Some (integrateVariable env None), None), st)"
  by (simp add: evaluateIntegral_def call_integrate_def variable_x_def)

text \<open>
  C7. \<open>calculateCost(Formula.variable(x), 2, true)\<close> with \<open>x\<close> holding 3: the
  integral at \<open>2 + 3\<close> is 25/2 and the integral at the current value 3 is 9/2, so the
  definite integral over the purchase range is 8; the code subtracts the integral with
  no override instead, which does not read \<open>x\<close>, and returns 25/2.
\<close>

theorem calculateCost_variable_leaf:
  "Formula_variable (Ref 0) = Inr variable_x \<and>
   unref (store_of 3 1) (Ref 0) = 3 \<and>
   evaluateIntegral exact_env variable_x (Some 5) None (store_of 3 1) =
     (Inr (Some (25 / 2), None), store_of 3 1) \<and>
   evaluateIntegral exact_env variable_x (Some 3) None (store_of 3 1) =
     (Inr (Some (9 / 2), None), store_of 3 1) \<and>
   evaluateIntegral env variable_x None None st =
     (Inr (Some (integrateVariable env None), None), st) \<and>
   calculateCost exact_env variable_x 2 True (store_of 3 1) =
     (Inr (Some (25 / 2)), store_of 3 1)"
  by (intro conjI build_variable_x integral_variable_x_no_override)
     (simp_all add: calculateCost_def Let_def integral_variable_x caps_variable_x
        exact_env_simps num_of_simps unref_simps nullish_def unref_opt_def)

section \<open>Round trips, steps and equality\<close>

text \<open>
  C8. \<open>variable(x).mul(2)\<close> answers \<open>isInvertible()\<close> with true; its \<open>invert(10)\<close>
  throws, so \<open>evaluate(invert(10))\<close> has no value, and its \<open>evaluate(5)\<close> is 5.
\<close>

theorem invertible_mul_round_trip_fails:
  "Formula_variable (Ref 0) = Inr variable_x \<and>
   mul variable_x (SValue (Plain 2)) = Inr x_times_2 \<and>
   isInvertible x_times_2 \<and>
   invert env x_times_2 (Some 10) st = (Inl err_cannot_invert, st) \<and>
   evaluate env x_times_2 (Some 5) st = (Inr (Some 5), st)"
  by (intro conjI build_variable_x build_x_times_2)
     (simp_all add: x_times_2_def isInvertible_def is_null_def)

text \<open>
  C9. \<open>variable(x).step(150, v => v.mul(2))\<close>: evaluated at 100 the code returns 100;
  evaluated at 200 it returns 200, not 250; \<open>invert(250)\<close> returns 250, not 200.
\<close>

theorem step_scenario:
  "Formula_variable (Ref 0) = Inr variable_x \<and>
   step env variable_x (Plain 150) (\<lambda>v. mul v (SValue (Plain 2))) st0 =
     (Inr x_stepped, snd (new_ref (dNum env 0) st0)) \<and>
   evaluate env x_stepped (Some 100) st = (Inr (Some 100), st) \<and>
   evaluate env x_stepped (Some 200) st = (Inr (Some 200), st) \<and>
   invert env x_stepped (Some 250) st = (Inr (Some 250), st)"
  by (intro conjI build_variable_x build_x_stepped)
     (simp_all add: x_stepped_def)

text \<open>
  \<open>equals\<close> is reflexive wherever \<open>Decimal.eq\<close> is, and the evaluate callback of the
  options has no part in the node that is built.
\<close>

lemma equals_reflexive_aux:
  "g = f \<Longrightarrow> (\<And>v. dEq env (Some v) (Some v)) \<Longrightarrow> equals env st f g"
  "ys = xs \<Longrightarrow> (\<And>v. dEq env (Some v) (Some v)) \<Longrightarrow> equals_inputs env st xs ys"
  by (induction env st f g and env st xs ys rule: equals_equals_inputs.induct)
     (auto simp: first_def)

lemma equals_reflexive:
  assumes "\<And>v. dEq env (Some v) (Some v)"
  shows "equals env st f f"
  using equals_reflexive_aux(1) [OF refl] assms by blast

lemma new_Formula_ignores_evaluate:
  "new_Formula (GeneralOptions (opts\<lparr>o_evaluate := e\<rparr>)) = new_Formula (GeneralOptions opts)"
  by (simp add: new_Formula_def setupFormula_def Let_def)

text \<open>
  C10. \<open>Formula.abs(1)\<close> and \<open>Formula.sign(1)\<close> have different evaluate callbacks, and
  \<open>equals\<close> finds them equal whenever \<open>Decimal.eq(1, 1)\<close> holds: both factories build
  the same node.
\<close>

theorem abs_equals_sign:
  "Formula_abs (SValue (Plain 1)) = Inr node_of_1 \<and>
   Formula_sign (SValue (Plain 1)) = Inr node_of_1 \<and>
   equals env st node_of_1 node_of_1 = dEq env (Some 1) (Some 1) \<and>
   dEq exact_env (Some 1) (Some 1)"
  by (intro conjI build_abs_1 build_sign_1)
     (simp_all add: node_of_1_def first_def unref_def exact_env_simps)

end
